theory Spec2Isabelle
  imports Main
begin

section \<open>The declaration extractor of \<^verbatim>\<open>src/bin/decls.cc\<close>\<close>

text \<open>
  The extractor is a \<^verbatim>\<open>RecursiveASTVisitor\<close> over the tree the Clang front-end builds.
  The front-end is a library outside the repository, so its results are the inputs of
  this development: the tree with the attributes \<^verbatim>\<open>decls.cc\<close> reads from each node,
  the source manager's answers about locations, the parsed command line, and what
  \<^verbatim>\<open>ClangTool::run\<close> returns. Everything \<^verbatim>\<open>decls.cc\<close> itself computes is defined
  below from its text.
\<close>

subsection \<open>Locations\<close>

text \<open>
  A \<^verbatim>\<open>SourceLocation\<close> as the source manager resolves it. The source manager resolves
  a location in two ways, which differ for a token that comes out of a macro: the
  expansion location is where the macro is used, the spelling location is where the token
  is written, in the macro's definition. \<^verbatim>\<open>isInMainFile\<close> looks at the file of the
  expansion location; \<^verbatim>\<open>getSpellingLineNumber\<close> and \<^verbatim>\<open>getSpellingColumnNumber\<close> give a
  position in the file of the spelling location. For a token outside any macro the two
  files are the same. The numbers are only copied and printed, never computed with, so
  they are natural numbers.
\<close>

record source_location =
  isValid :: bool
  expansionFile :: string
  spellingFile :: string
  spellingLine :: nat
  spellingColumn :: nat

record source_manager =
  mainFileName :: string

definition isInMainFile :: "source_manager \<Rightarrow> source_location \<Rightarrow> bool" where
  "isInMainFile SM Loc = (isValid Loc \<and> expansionFile Loc = mainFileName SM)"

subsection \<open>Declaration nodes\<close>

text \<open>
  \<^verbatim>\<open>decls.cc\<close> tells nodes apart with \<^verbatim>\<open>dyn_cast\<close> to seven classes, none of which
  derives from another, so a node is of at most one of them. The shape of a node names
  that class (a node of a derived class, such as a \<^verbatim>\<open>ParmVarDecl\<close> or a
  \<^verbatim>\<open>CXXRecordDecl\<close>, has the shape of its base \<^verbatim>\<open>VarDecl\<close> or \<^verbatim>\<open>RecordDecl\<close>) and
  carries what the code reads through the cast pointer. \<open>OtherNamedDecl\<close> is any other
  \<^verbatim>\<open>NamedDecl\<close> (a namespace, a type alias, a label, ...), \<open>OtherDecl\<close> a node that is
  not a \<^verbatim>\<open>NamedDecl\<close> (the translation unit itself, a static assertion, ...).
\<close>

datatype tag_kind = TTK_Struct | TTK_Interface | TTK_Union | TTK_Class

datatype decl_shape =
    FunctionDecl (getReturnType: string) (parameters: "(string \<times> string) list")
  | VarDecl (getType: string)
  | TypedefDecl (getUnderlyingType: string)
  | RecordDecl (getTagKind: tag_kind)
  | EnumDecl
  | FieldDecl (getType: string)
  | EnumConstantDecl (getInitExpr: bool)
  | OtherNamedDecl
  | OtherDecl

text \<open>
  What every node has: the name of its dynamic class (\<^verbatim>\<open>getDeclKindName\<close>), its name
  (\<^verbatim>\<open>getNameAsString\<close>, empty for an anonymous entity), its location, whether the
  front-end made it up (\<^verbatim>\<open>isImplicit\<close>), and the front-end's flag that this very
  occurrence is the defining one (\<^verbatim>\<open>isThisDeclarationADefinition\<close>). A parameter of a
  function is given by the printed type and the name of its \<^verbatim>\<open>ParmVarDecl\<close>.
\<close>

record decl_common =
  getDeclKindName :: string
  getNameAsString :: string
  getLocation :: source_location
  isImplicit :: bool
  isThisDeclarationADefinition :: bool

text \<open>
  A node with the nodes the visitor's walk reaches from it, in the order of the walk:
  the members of a record or enum, the parameters of a function, the declarations in
  its body.
\<close>

datatype decl = Decl (common: decl_common) (shape: decl_shape) (children: "decl list")

subsection \<open>The collected records\<close>

text \<open>\<^verbatim>\<open>struct DeclInfo\<close>; the field \<^verbatim>\<open>declaration\<close> is \<open>declaration_str\<close> here.\<close>

record DeclInfo =
  kind :: string
  declaration_str :: string
  is_definition :: bool
  line :: nat
  column :: nat

text \<open>
  The one way the visitor's own code can stop the process: \<^verbatim>\<open>cast<NamedDecl>\<close> on a
  node that is not one.
\<close>

datatype failure = CastFailure

subsection \<open>\<^verbatim>\<open>DeclVisitor\<close>\<close>

definition shouldVisitDecl :: "source_manager \<Rightarrow> decl \<Rightarrow> bool" where
  "shouldVisitDecl SM D =
     (if \<not> isValid (getLocation (common D)) then False
      else if \<not> isInMainFile SM (getLocation (common D)) then False
      else True)"

text \<open>
  The loop of \<^verbatim>\<open>getFunctionSignature\<close> over the parameters, \<open>i\<close> being the index of
  the next one.
\<close>

fun appendParams :: "nat \<Rightarrow> (string \<times> string) list \<Rightarrow> string \<Rightarrow> string" where
  "appendParams i [] result = result"
| "appendParams i ((ty, nm) # ps) result =
     appendParams (Suc i) ps
       ((if i > 0 then result @ '', '' else result) @ ty
          @ (if nm \<noteq> [] then '' '' @ nm else []))"

definition getFunctionSignature :: "string \<Rightarrow> string \<Rightarrow> (string \<times> string) list \<Rightarrow> string" where
  "getFunctionSignature RT nm ps =
     (let result = RT @ '' '' @ nm @ ''('';
          result = (if length ps = 0 then result @ ''void'' else appendParams 0 ps result)
      in result @ '')'')"

definition getDeclarationString :: "decl \<Rightarrow> failure + string" where
  "getDeclarationString D =
     (let nm = getNameAsString (common D) in
      case shape D of
        FunctionDecl RT ps \<Rightarrow> Inr (getFunctionSignature RT nm ps @ '';'')
      | VarDecl ty \<Rightarrow> Inr (ty @ '' '' @ nm @ '';'')
      | TypedefDecl UnderlyingType \<Rightarrow> Inr (''typedef '' @ UnderlyingType @ '' '' @ nm @ '';'')
      | RecordDecl tk \<Rightarrow>
          (let name = (if nm = [] then ''<anonymous>'' else nm) in
           Inr ((if tk = TTK_Struct then ''struct ''
                 else if tk = TTK_Union then ''union '' else ''class '') @ name @ '';''))
      | EnumDecl \<Rightarrow>
          (let name = (if nm = [] then ''<anonymous>'' else nm) in
           Inr (''enum '' @ name @ '';''))
      | FieldDecl ty \<Rightarrow> Inr (ty @ '' '' @ nm @ '';'')
      | EnumConstantDecl init \<Rightarrow> Inr (if init then nm @ '' = <value>'' else nm)
      | OtherNamedDecl \<Rightarrow> Inr (getDeclKindName (common D) @ '': '' @ nm)
      | OtherDecl \<Rightarrow> Inl CastFailure)"

definition isDefinition :: "decl \<Rightarrow> bool" where
  "isDefinition D =
     (case shape D of
        FunctionDecl RT ps \<Rightarrow> isThisDeclarationADefinition (common D)
      | RecordDecl tk \<Rightarrow> isThisDeclarationADefinition (common D)
      | EnumDecl \<Rightarrow> isThisDeclarationADefinition (common D)
      | _ \<Rightarrow> False)"

text \<open>
  \<^verbatim>\<open>addDeclaration\<close> appends to the vector \<^verbatim>\<open>Decls\<close> the visitor holds by reference;
  here the vector is passed in and returned.
\<close>

definition addDeclaration :: "source_manager \<Rightarrow> decl \<Rightarrow> DeclInfo list \<Rightarrow> failure + DeclInfo list" where
  "addDeclaration SM D Decls =
     (if \<not> shouldVisitDecl SM D then Inr Decls
      else case getDeclarationString D of
        Inl f \<Rightarrow> Inl f
      | Inr s \<Rightarrow>
          Inr (Decls @ [\<lparr>kind = getDeclKindName (common D),
                         declaration_str = s,
                         is_definition = isDefinition D,
                         line = spellingLine (getLocation (common D)),
                         column = spellingColumn (getLocation (common D))\<rparr>]))"

text \<open>The seven \<^verbatim>\<open>Visit\<close> methods the class defines; each returns \<^verbatim>\<open>true\<close>.\<close>

definition VisitFunctionDecl :: "source_manager \<Rightarrow> decl \<Rightarrow> DeclInfo list \<Rightarrow> failure + DeclInfo list" where
  "VisitFunctionDecl SM FD Decls = addDeclaration SM FD Decls"

definition VisitVarDecl :: "source_manager \<Rightarrow> decl \<Rightarrow> DeclInfo list \<Rightarrow> failure + DeclInfo list" where
  "VisitVarDecl SM VD Decls = addDeclaration SM VD Decls"

definition VisitTypedefDecl :: "source_manager \<Rightarrow> decl \<Rightarrow> DeclInfo list \<Rightarrow> failure + DeclInfo list" where
  "VisitTypedefDecl SM TD Decls = addDeclaration SM TD Decls"

definition VisitRecordDecl :: "source_manager \<Rightarrow> decl \<Rightarrow> DeclInfo list \<Rightarrow> failure + DeclInfo list" where
  "VisitRecordDecl SM RD Decls = addDeclaration SM RD Decls"

definition VisitEnumDecl :: "source_manager \<Rightarrow> decl \<Rightarrow> DeclInfo list \<Rightarrow> failure + DeclInfo list" where
  "VisitEnumDecl SM ED Decls = addDeclaration SM ED Decls"

definition VisitFieldDecl :: "source_manager \<Rightarrow> decl \<Rightarrow> DeclInfo list \<Rightarrow> failure + DeclInfo list" where
  "VisitFieldDecl SM FD Decls = addDeclaration SM FD Decls"

definition VisitEnumConstantDecl :: "source_manager \<Rightarrow> decl \<Rightarrow> DeclInfo list \<Rightarrow> failure + DeclInfo list" where
  "VisitEnumConstantDecl SM ECD Decls = addDeclaration SM ECD Decls"

subsection \<open>The walk of \<^verbatim>\<open>RecursiveASTVisitor\<close>\<close>

text \<open>
  The base class of \<^verbatim>\<open>DeclVisitor\<close> belongs to the front-end library. With the defaults
  \<^verbatim>\<open>DeclVisitor\<close> leaves in place, its \<^verbatim>\<open>TraverseDecl\<close> returns at once on an implicit
  node, and otherwise first walks up from the node, calling the \<^verbatim>\<open>Visit\<close> method of
  each class the node is an instance of (the derived class's own methods and the
  library's empty ones for every class without one), and then traverses the children
  in order. No \<^verbatim>\<open>Visit\<close> method of \<^verbatim>\<open>DeclVisitor\<close> returns \<^verbatim>\<open>false\<close>, so the walk is
  never cut short.
\<close>

definition WalkUpFrom :: "source_manager \<Rightarrow> decl \<Rightarrow> DeclInfo list \<Rightarrow> failure + DeclInfo list" where
  "WalkUpFrom SM D Decls =
     (case shape D of
        FunctionDecl RT ps \<Rightarrow> VisitFunctionDecl SM D Decls
      | VarDecl ty \<Rightarrow> VisitVarDecl SM D Decls
      | TypedefDecl u \<Rightarrow> VisitTypedefDecl SM D Decls
      | RecordDecl tk \<Rightarrow> VisitRecordDecl SM D Decls
      | EnumDecl \<Rightarrow> VisitEnumDecl SM D Decls
      | FieldDecl ty \<Rightarrow> VisitFieldDecl SM D Decls
      | EnumConstantDecl init \<Rightarrow> VisitEnumConstantDecl SM D Decls
      | OtherNamedDecl \<Rightarrow> Inr Decls
      | OtherDecl \<Rightarrow> Inr Decls)"

fun TraverseDecl :: "source_manager \<Rightarrow> decl \<Rightarrow> DeclInfo list \<Rightarrow> failure + DeclInfo list"
  and TraverseDecls :: "source_manager \<Rightarrow> decl list \<Rightarrow> DeclInfo list \<Rightarrow> failure + DeclInfo list"
  where
  "TraverseDecl SM (Decl c s cs) Decls =
     (if isImplicit c then Inr Decls
      else case WalkUpFrom SM (Decl c s cs) Decls of
        Inl f \<Rightarrow> Inl f
      | Inr Decls' \<Rightarrow> TraverseDecls SM cs Decls')"
| "TraverseDecls SM [] Decls = Inr Decls"
| "TraverseDecls SM (D # Ds) Decls =
     (case TraverseDecl SM D Decls of
        Inl f \<Rightarrow> Inl f
      | Inr Decls' \<Rightarrow> TraverseDecls SM Ds Decls')"

text \<open>\<^verbatim>\<open>DeclConsumer::HandleTranslationUnit\<close>, on the root the context hands it.\<close>

definition HandleTranslationUnit :: "source_manager \<Rightarrow> decl \<Rightarrow> DeclInfo list \<Rightarrow> failure + DeclInfo list" where
  "HandleTranslationUnit SM TU Decls = TraverseDecl SM TU Decls"

subsection \<open>\<^verbatim>\<open>main\<close>\<close>

text \<open>
  What \<^verbatim>\<open>CommonOptionsParser::create\<close> yields: an error with its message, or the parsed
  command line, that is the two flags of the tool and the source paths.
\<close>

datatype 'a Expected = Error string | Value 'a

record command_line =
  ShowMacros :: bool
  DefinitionsOnly :: bool
  getSourcePathList :: "string list"

text \<open>
  What the front-end does in \<^verbatim>\<open>Tool.run\<close>, as far as \<^verbatim>\<open>main\<close> can see it: the
  translation units it hands to \<^verbatim>\<open>HandleTranslationUnit\<close>, in order, each with its
  source manager (none when no tree could be built), the diagnostics it writes to the
  error stream, and the integer it returns.
\<close>

record tool_run =
  translationUnits :: "(source_manager \<times> decl) list"
  diagnostics :: string
  returnCode :: int

fun run_units :: "(source_manager \<times> decl) list \<Rightarrow> DeclInfo list \<Rightarrow> failure + DeclInfo list" where
  "run_units [] Decls = Inr Decls"
| "run_units ((SM, TU) # us) Decls =
     (case HandleTranslationUnit SM TU Decls of
        Inl f \<Rightarrow> Inl f
      | Inr Decls' \<Rightarrow> run_units us Decls')"

text \<open>An unsigned number as \<^verbatim>\<open>operator<<\<close> prints it, in decimal.\<close>

fun decimal :: "nat \<Rightarrow> string" where
  "decimal n =
     (if n < 10 then [''0123456789'' ! n]
      else decimal (n div 10) @ [''0123456789'' ! (n mod 10)])"

declare decimal.simps [simp del]

definition newline :: string where
  "newline = [CHR 0x0A]"

text \<open>The loop of \<^verbatim>\<open>main\<close> over the records, appending to standard output.\<close>

fun print_decls :: "bool \<Rightarrow> DeclInfo list \<Rightarrow> string \<Rightarrow> string" where
  "print_decls defsOnly [] out = out"
| "print_decls defsOnly (decl # Decls) out =
     (if defsOnly \<and> \<not> is_definition decl then print_decls defsOnly Decls out
      else print_decls defsOnly Decls
             (out @ declaration_str decl @ ''  // ''
                @ (if is_definition decl then ''definition'' else ''declaration'')
                @ '' at '' @ decimal (line decl) @ '':'' @ decimal (column decl) @ newline))"

text \<open>The part of \<^verbatim>\<open>main\<close> under "Print results": what it writes to standard output.\<close>

definition print_results :: "command_line \<Rightarrow> DeclInfo list \<Rightarrow> string" where
  "print_results OptionsParser Decls =
     (let out = (if length (getSourcePathList OptionsParser) > 0
                 then ''=== Declarations from '' @ getSourcePathList OptionsParser ! 0
                        @ '' ==='' @ newline @ newline
                 else []);
          out = print_decls (DefinitionsOnly OptionsParser) Decls out
      in out @ newline @ ''=== Total: '' @ decimal (length Decls) @ '' items ==='' @ newline)"

record process_result =
  stdout :: string
  stderr :: string
  exit_status :: int

definition main :: "command_line Expected \<Rightarrow> tool_run \<Rightarrow> failure + process_result" where
  "main ExpectedParser Tool =
     (case ExpectedParser of
        Error msg \<Rightarrow> Inr \<lparr>stdout = [], stderr = msg, exit_status = 1\<rparr>
      | Value OptionsParser \<Rightarrow>
          (case run_units (translationUnits Tool) [] of
             Inl f \<Rightarrow> Inl f
           | Inr Decls \<Rightarrow>
               Inr \<lparr>stdout = print_results OptionsParser Decls,
                    stderr = diagnostics Tool,
                    exit_status = returnCode Tool\<rparr>))"

section \<open>The tree as a list of nodes\<close>

text \<open>Every node of a tree, depth first, a node before its children.\<close>

fun nodes :: "decl \<Rightarrow> decl list" where
  "nodes (Decl c s cs) = Decl c s cs # concat (map nodes cs)"

text \<open>The nodes the walk reaches: the same order, without implicit nodes and what is below them.\<close>

fun walked :: "decl \<Rightarrow> decl list" where
  "walked (Decl c s cs) = (if isImplicit c then [] else Decl c s cs # concat (map walked cs))"

text \<open>The classes \<^verbatim>\<open>DeclVisitor\<close> has a \<^verbatim>\<open>Visit\<close> method for.\<close>

definition hasVisitMethod :: "decl \<Rightarrow> bool" where
  "hasVisitMethod D = (shape D \<noteq> OtherNamedDecl \<and> shape D \<noteq> OtherDecl)"

text \<open>The nodes that get a record: reached by the walk, of a visited class, located in the main file.\<close>

definition recorded :: "source_manager \<Rightarrow> decl \<Rightarrow> decl list" where
  "recorded SM TU = filter (\<lambda>D. hasVisitMethod D \<and> shouldVisitDecl SM D) (walked TU)"

text \<open>
  The record \<^verbatim>\<open>addDeclaration\<close> builds for a node, with the empty text where
  \<^verbatim>\<open>getDeclarationString\<close> fails.
\<close>

definition record_of :: "decl \<Rightarrow> DeclInfo" where
  "record_of D =
     \<lparr>kind = getDeclKindName (common D),
      declaration_str = (case getDeclarationString D of Inr s \<Rightarrow> s | Inl f \<Rightarrow> []),
      is_definition = isDefinition D,
      line = spellingLine (getLocation (common D)),
      column = spellingColumn (getLocation (common D))\<rparr>"

text \<open>One line of the report, and the header line with the blank line after it.\<close>

definition decl_line :: "DeclInfo \<Rightarrow> string" where
  "decl_line decl =
     declaration_str decl @ ''  // ''
       @ (if is_definition decl then ''definition'' else ''declaration'')
       @ '' at '' @ decimal (line decl) @ '':'' @ decimal (column decl) @ newline"

definition report_header :: "command_line \<Rightarrow> string" where
  "report_header OptionsParser =
     (case getSourcePathList OptionsParser of
        [] \<Rightarrow> []
      | path # paths \<Rightarrow> ''=== Declarations from '' @ path @ '' ==='' @ newline @ newline)"

text \<open>A text given line by line.\<close>

definition unlines :: "string list \<Rightarrow> string" where
  "unlines ls = concat (map (\<lambda>l. l @ newline) ls)"

section \<open>Example inputs\<close>

text \<open>
  Trees as the front-end builds them for small sources. \<open>located\<close> is the location of
  a token outside any macro, \<open>written\<close> the common part of a node the user wrote,
  \<open>translationUnit\<close> the root, which has no location. The
  built-in typedefs the front-end puts in front of every unit are left out: they are
  implicit and have no location, so the walk passes over them.
\<close>

definition located :: "string \<Rightarrow> nat \<Rightarrow> nat \<Rightarrow> source_location" where
  "located f l c =
     \<lparr>isValid = True, expansionFile = f, spellingFile = f, spellingLine = l, spellingColumn = c\<rparr>"

definition noLocation :: source_location where
  "noLocation =
     \<lparr>isValid = False, expansionFile = [], spellingFile = [], spellingLine = 0, spellingColumn = 0\<rparr>"

definition written :: "string \<Rightarrow> string \<Rightarrow> source_location \<Rightarrow> bool \<Rightarrow> decl_common" where
  "written k nm loc def =
     \<lparr>getDeclKindName = k, getNameAsString = nm, getLocation = loc,
      isImplicit = False, isThisDeclarationADefinition = def\<rparr>"

definition translationUnit :: "decl list \<Rightarrow> decl" where
  "translationUnit Ds = Decl (written ''TranslationUnit'' [] noLocation False) OtherDecl Ds"

text \<open>
  The C source \<^verbatim>\<open>conn.c\<close>:
  \<^verbatim>\<open>
struct connection;
typedef struct connection CONNECTION;
struct connection { int fd; CONNECTION *next; };
int f(void);
int f(void) { return 0; }
  \<close>
\<close>

definition conn_SM :: source_manager where
  "conn_SM = \<lparr>mainFileName = ''conn.c''\<rparr>"

definition conn_TU :: decl where
  "conn_TU = translationUnit
     [Decl (written ''Record'' ''connection'' (located ''conn.c'' 1 8) False)
        (RecordDecl TTK_Struct) [],
      Decl (written ''Typedef'' ''CONNECTION'' (located ''conn.c'' 2 27) False)
        (TypedefDecl ''struct connection'') [],
      Decl (written ''Record'' ''connection'' (located ''conn.c'' 3 8) True)
        (RecordDecl TTK_Struct)
        [Decl (written ''Field'' ''fd'' (located ''conn.c'' 3 25) False) (FieldDecl ''int'') [],
         Decl (written ''Field'' ''next'' (located ''conn.c'' 3 41) False)
           (FieldDecl ''CONNECTION *'') []],
      Decl (written ''Function'' ''f'' (located ''conn.c'' 4 5) False) (FunctionDecl ''int'' []) [],
      Decl (written ''Function'' ''f'' (located ''conn.c'' 5 5) True) (FunctionDecl ''int'' []) []]"

definition conn_options :: command_line where
  "conn_options = \<lparr>ShowMacros = False, DefinitionsOnly = False, getSourcePathList = [''conn.c'']\<rparr>"

definition conn_run :: tool_run where
  "conn_run = \<lparr>translationUnits = [(conn_SM, conn_TU)], diagnostics = [], returnCode = 0\<rparr>"

text \<open>
  The C++ source \<^verbatim>\<open>s.cc\<close>:
  \<^verbatim>\<open>
namespace n {
struct S { int x; };
}
  \<close>
  In C++ the front-end puts into every class an implicit declaration of the class's own
  name, at the location of the class.
\<close>

definition s_SM :: source_manager where
  "s_SM = \<lparr>mainFileName = ''s.cc''\<rparr>"

definition s_TU :: decl where
  "s_TU = translationUnit
     [Decl (written ''Namespace'' ''n'' (located ''s.cc'' 1 11) False) OtherNamedDecl
        [Decl (written ''CXXRecord'' ''S'' (located ''s.cc'' 2 8) True) (RecordDecl TTK_Struct)
           [Decl ((written ''CXXRecord'' ''S'' (located ''s.cc'' 2 8) False)\<lparr>isImplicit := True\<rparr>)
              (RecordDecl TTK_Struct) [],
            Decl (written ''Field'' ''x'' (located ''s.cc'' 2 16) False) (FieldDecl ''int'') []]]]"

text \<open>
  The C++ source \<^verbatim>\<open>ns.cc\<close>:
  \<^verbatim>\<open>
namespace ns { int x; }
  \<close>
\<close>

definition ns_SM :: source_manager where
  "ns_SM = \<lparr>mainFileName = ''ns.cc''\<rparr>"

definition ns_Decl :: decl where
  "ns_Decl =
     Decl (written ''Namespace'' ''ns'' (located ''ns.cc'' 1 11) False) OtherNamedDecl
       [Decl (written ''Var'' ''x'' (located ''ns.cc'' 1 20) False) (VarDecl ''int'') []]"

definition ns_TU :: decl where
  "ns_TU = translationUnit [ns_Decl]"

text \<open>
  The C source \<^verbatim>\<open>main.c\<close>, which includes a header \<^verbatim>\<open>h.h\<close> declaring
  \<^verbatim>\<open>int helper(int);\<close> on its first line:
  \<^verbatim>\<open>
#include "h.h"
int counter;
  \<close>
\<close>

definition incl_SM :: source_manager where
  "incl_SM = \<lparr>mainFileName = ''main.c''\<rparr>"

definition helper_Decl :: decl where
  "helper_Decl =
     Decl (written ''Function'' ''helper'' (located ''h.h'' 1 5) False)
       (FunctionDecl ''int'' [(''int'', [])])
       [Decl (written ''ParmVar'' [] (located ''h.h'' 1 15) False) (VarDecl ''int'') []]"

definition counter_Decl :: decl where
  "counter_Decl =
     Decl (written ''Var'' ''counter'' (located ''main.c'' 2 5) False) (VarDecl ''int'') []"

definition incl_TU :: decl where
  "incl_TU = translationUnit [helper_Decl, counter_Decl]"

text \<open>
  The C source \<^verbatim>\<open>m.c\<close>, whose header \<^verbatim>\<open>m.h\<close> has the one line
  \<^verbatim>\<open>#define DECLARE_COUNTER int counter\<close>:
  \<^verbatim>\<open>
#include "m.h"
DECLARE_COUNTER;
  \<close>
  The variable is declared in \<^verbatim>\<open>m.c\<close>, where the macro is used, and its name is written
  in \<^verbatim>\<open>m.h\<close>, at line 1, column 29.
\<close>

definition macro_SM :: source_manager where
  "macro_SM = \<lparr>mainFileName = ''m.c''\<rparr>"

definition macro_Decl :: decl where
  "macro_Decl =
     Decl (written ''Var'' ''counter''
             \<lparr>isValid = True, expansionFile = ''m.c'', spellingFile = ''m.h'',
              spellingLine = 1, spellingColumn = 29\<rparr> False)
       (VarDecl ''int'') []"

definition macro_TU :: decl where
  "macro_TU = translationUnit [macro_Decl]"

text \<open>
  The C source \<^verbatim>\<open>bad.c\<close>, with an error the front-end recovers from: it reports the
  undeclared \<^verbatim>\<open>y\<close>, still hands the tree to the consumer, and \<^verbatim>\<open>Tool.run\<close> returns 1.
  \<^verbatim>\<open>
int g(void) { return y; }
  \<close>
\<close>

definition bad_SM :: source_manager where
  "bad_SM = \<lparr>mainFileName = ''bad.c''\<rparr>"

definition bad_TU :: decl where
  "bad_TU = translationUnit
     [Decl (written ''Function'' ''g'' (located ''bad.c'' 1 5) True) (FunctionDecl ''int'' []) []]"

definition bad_options :: command_line where
  "bad_options = \<lparr>ShowMacros = False, DefinitionsOnly = False, getSourcePathList = [''bad.c'']\<rparr>"

definition bad_run :: tool_run where
  "bad_run = \<lparr>translationUnits = [(bad_SM, bad_TU)],
              diagnostics = ''bad.c:1:22: error: use of undeclared identifier y'',
              returnCode = 1\<rparr>"

text \<open>
  A run on a path \<^verbatim>\<open>missing.c\<close> that does not exist: the front-end builds no tree, the
  consumer is never called, and \<^verbatim>\<open>Tool.run\<close> returns 1.
\<close>

definition missing_options :: command_line where
  "missing_options =
     \<lparr>ShowMacros = False, DefinitionsOnly = False, getSourcePathList = [''missing.c'']\<rparr>"

definition missing_run :: tool_run where
  "missing_run = \<lparr>translationUnits = [],
                  diagnostics = ''error: no such file or directory: missing.c'',
                  returnCode = 1\<rparr>"

text \<open>
  A struct with an unnamed bit-field, \<^verbatim>\<open>struct flags { int : 3; };\<close> in \<^verbatim>\<open>bits.c\<close>:
  the field node.
\<close>

definition bits_SM :: source_manager where
  "bits_SM = \<lparr>mainFileName = ''bits.c''\<rparr>"

definition bits_Field :: decl where
  "bits_Field = Decl (written ''Field'' [] (located ''bits.c'' 1 20) False) (FieldDecl ''int'') []"

section \<open>What the walk collects\<close>

lemma getDeclarationString_visited:
  "hasVisitMethod D \<Longrightarrow> \<exists>s. getDeclarationString D = Inr s"
  by (cases "shape D") (simp_all add: hasVisitMethod_def getDeclarationString_def Let_def)

lemma addDeclaration_skip:
  "\<not> shouldVisitDecl SM D \<Longrightarrow> addDeclaration SM D Decls = Inr Decls"
  by (simp add: addDeclaration_def)

lemma addDeclaration_record:
  assumes "hasVisitMethod D" and "shouldVisitDecl SM D"
  shows "addDeclaration SM D Decls = Inr (Decls @ [record_of D])"
proof -
  from assms(1) obtain s where "getDeclarationString D = Inr s"
    using getDeclarationString_visited by blast
  with assms(2) show ?thesis
    by (simp add: addDeclaration_def record_of_def)
qed

lemma WalkUpFrom_visited:
  "hasVisitMethod D \<Longrightarrow> WalkUpFrom SM D Decls = addDeclaration SM D Decls"
  by (cases "shape D")
     (simp_all add: hasVisitMethod_def WalkUpFrom_def VisitFunctionDecl_def VisitVarDecl_def
        VisitTypedefDecl_def VisitRecordDecl_def VisitEnumDecl_def VisitFieldDecl_def
        VisitEnumConstantDecl_def)

lemma WalkUpFrom_other:
  "\<not> hasVisitMethod D \<Longrightarrow> WalkUpFrom SM D Decls = Inr Decls"
  by (cases "shape D") (simp_all add: hasVisitMethod_def WalkUpFrom_def)

lemma WalkUpFrom_eq:
  "WalkUpFrom SM D Decls =
     Inr (Decls @ map record_of (filter (\<lambda>D. hasVisitMethod D \<and> shouldVisitDecl SM D) [D]))"
proof (cases "hasVisitMethod D")
  case True
  then show ?thesis
    by (cases "shouldVisitDecl SM D")
       (simp_all add: WalkUpFrom_visited addDeclaration_record addDeclaration_skip)
next
  case False
  then show ?thesis by (simp add: WalkUpFrom_other)
qed

lemma TraverseDecl_eq:
  "TraverseDecl SM D Decls = Inr (Decls @ map record_of (recorded SM D))"
  and TraverseDecls_eq:
  "TraverseDecls SM Ds Decls = Inr (Decls @ concat (map (\<lambda>D. map record_of (recorded SM D)) Ds))"
proof (induction SM D Decls and SM Ds Decls rule: TraverseDecl_TraverseDecls.induct)
  case (1 SM c s cs Decls)
  show ?case
  proof (cases "isImplicit c")
    case True
    then show ?thesis by (simp add: recorded_def)
  next
    case False
    have w: "WalkUpFrom SM (Decl c s cs) Decls =
        Inr (Decls @ map record_of (filter (\<lambda>D. hasVisitMethod D \<and> shouldVisitDecl SM D) [Decl c s cs]))"
      by (rule WalkUpFrom_eq)
    have "TraverseDecl SM (Decl c s cs) Decls =
        TraverseDecls SM cs (Decls @ map record_of (filter (\<lambda>D. hasVisitMethod D \<and> shouldVisitDecl SM D) [Decl c s cs]))"
      using False w by simp
    also have "\<dots> = Inr ((Decls @ map record_of (filter (\<lambda>D. hasVisitMethod D \<and> shouldVisitDecl SM D) [Decl c s cs]))
         @ concat (map (\<lambda>D. map record_of (recorded SM D)) cs))"
      using "1.IH" [OF False w] .
    also have "\<dots> = Inr (Decls @ map record_of (recorded SM (Decl c s cs)))"
      using False by (simp add: recorded_def filter_concat map_concat comp_def)
    finally show ?thesis .
  qed
next
  case (2 SM Decls)
  show ?case by simp
next
  case (3 SM D Ds Decls)
  have "TraverseDecls SM (D # Ds) Decls = TraverseDecls SM Ds (Decls @ map record_of (recorded SM D))"
    using "3.IH"(1) by simp
  also have "\<dots> = Inr ((Decls @ map record_of (recorded SM D)) @ concat (map (\<lambda>D. map record_of (recorded SM D)) Ds))"
    using "3.IH"(2) [OF "3.IH"(1)] .
  finally show ?case by simp
qed

lemma walked_subset_nodes: "set (walked D) \<subseteq> set (nodes D)"
proof (induction D rule: nodes.induct)
  case (1 c s cs)
  then show ?case by (cases "isImplicit c") auto
qed

lemma recorded_props:
  assumes "D \<in> set (recorded SM TU)"
  shows "D \<in> set (nodes TU)" and "hasVisitMethod D" and "shouldVisitDecl SM D"
  using assms walked_subset_nodes by (auto simp: recorded_def)

lemma shouldVisitDecl_iff:
  "shouldVisitDecl SM D \<longleftrightarrow>
     isValid (getLocation (common D)) \<and> expansionFile (getLocation (common D)) = mainFileName SM"
  by (simp add: shouldVisitDecl_def isInMainFile_def)

lemma print_decls_eq:
  "print_decls defsOnly Decls out =
     out @ concat (map decl_line (filter (\<lambda>d. \<not> defsOnly \<or> is_definition d) Decls))"
  by (induction defsOnly Decls out rule: print_decls.induct) (auto simp: decl_line_def)

lemma print_results_eq:
  "print_results OP Decls =
     report_header OP
       @ concat (map decl_line (filter (\<lambda>d. \<not> DefinitionsOnly OP \<or> is_definition d) Decls))
       @ newline @ ''=== Total: '' @ decimal (length Decls) @ '' items ==='' @ newline"
  by (cases "getSourcePathList OP")
     (simp_all add: print_results_def Let_def print_decls_eq report_header_def)

lemma run_units_total: "\<exists>Decls'. run_units us Decls = Inr Decls'"
proof (induction us arbitrary: Decls)
  case Nil
  show ?case by simp
next
  case (Cons u us)
  obtain SM TU where u: "u = (SM, TU)" by (cases u)
  show ?case using Cons.IH
    by (simp add: u HandleTranslationUnit_def TraverseDecl_eq)
qed

section \<open>The claims\<close>

subsection \<open>C1: one record per node of the main file, in pre-order\<close>

text \<open>
  C1 as stated, a record for every declaration node located in the main file, does not
  hold. In \<^verbatim>\<open>s.cc\<close> four nodes are located in the main file: the namespace, the
  struct, the implicit declaration of the struct's own name inside it, and the field.
  \<^verbatim>\<open>DeclVisitor\<close> has no \<^verbatim>\<open>Visit\<close> method for a namespace, and the walk passes over the
  implicit node: two records.
\<close>

theorem C1_counterexample:
  "HandleTranslationUnit s_SM s_TU [] =
     Inr [\<lparr>kind = ''CXXRecord'', declaration_str = ''struct S;'', is_definition = True,
            line = 2, column = 8\<rparr>,
          \<lparr>kind = ''Field'', declaration_str = ''int x;'', is_definition = False,
            line = 2, column = 16\<rparr>]
   \<and> map (getDeclKindName \<circ> common) (filter (shouldVisitDecl s_SM) (nodes s_TU)) =
       [''Namespace'', ''CXXRecord'', ''CXXRecord'', ''Field'']"
  by (simp add: HandleTranslationUnit_def s_TU_def s_SM_def translationUnit_def written_def
      located_def noLocation_def WalkUpFrom_def VisitRecordDecl_def VisitFieldDecl_def
      addDeclaration_def shouldVisitDecl_def isInMainFile_def getDeclarationString_def
      isDefinition_def)

text \<open>
  C1, amended. The run over a tree always completes, and its records are, in depth-first
  pre-order, those of the nodes in \<open>recorded SM TU\<close>: the nodes the walk reaches (not
  implicit, no implicit node above them) that are of one of the seven visited classes
  and have a valid location in the main file. Each such node gives exactly the one
  record \<^verbatim>\<open>addDeclaration\<close> builds for it, so there are as many records as such nodes.
\<close>

theorem C1_records_in_preorder:
  "\<exists>Decls. HandleTranslationUnit SM TU [] = Inr Decls
      \<and> map (\<lambda>info. Inr [info]) Decls = map (\<lambda>D. addDeclaration SM D []) (recorded SM TU)
      \<and> length Decls = length (recorded SM TU)"
proof -
  have "map (\<lambda>info. Inr [info]) (map record_of (recorded SM TU)) =
        map (\<lambda>D. addDeclaration SM D []) (recorded SM TU)"
    using recorded_props(2,3) [of _ SM TU] by (simp add: addDeclaration_record)
  then show ?thesis
    by (simp add: HandleTranslationUnit_def TraverseDecl_eq)
qed

subsection \<open>C2: no record from outside the main file\<close>

text \<open>
  C2 as stated, a position inside the main file in every record, does not hold.
  \<^verbatim>\<open>shouldVisitDecl\<close> tests the expansion location, and \<^verbatim>\<open>addDeclaration\<close> stores the
  line and column of the spelling location. The variable of \<^verbatim>\<open>m.c\<close> passes the test, and
  its record has line 1, column 29, where its name is written in the header; line 1 of
  \<^verbatim>\<open>m.c\<close> is the include directive.
\<close>

theorem C2_counterexample:
  "HandleTranslationUnit macro_SM macro_TU [] =
     Inr [\<lparr>kind = ''Var'', declaration_str = ''int counter;'', is_definition = False,
            line = 1, column = 29\<rparr>]
   \<and> mainFileName macro_SM = ''m.c''
   \<and> nodes macro_TU = [macro_TU, macro_Decl]
   \<and> isValid (getLocation (common macro_TU)) = False
   \<and> spellingFile (getLocation (common macro_Decl)) = ''m.h''
   \<and> spellingLine (getLocation (common macro_Decl)) = 1
   \<and> spellingColumn (getLocation (common macro_Decl)) = 29"
  by (simp add: HandleTranslationUnit_def macro_TU_def macro_Decl_def macro_SM_def
      translationUnit_def written_def noLocation_def WalkUpFrom_def VisitVarDecl_def
      addDeclaration_def shouldVisitDecl_def isInMainFile_def getDeclarationString_def
      isDefinition_def)

text \<open>
  C2, amended. Every record of a run is the record of a node of the tree whose location
  is valid and whose expansion location lies in the main file; the record has the line
  and column of that node's spelling location, and these are a position in the main file
  whenever the node's spelling location lies in the same file as its expansion location.
  For a node whose location is invalid or whose expansion location lies in another file,
  \<^verbatim>\<open>addDeclaration\<close> leaves the records as they are.
\<close>

theorem C2_records_from_expansion_in_main_file:
  "\<exists>Decls. HandleTranslationUnit SM TU [] = Inr Decls
      \<and> (\<forall>info\<in>set Decls. \<exists>D\<in>set (nodes TU).
            isValid (getLocation (common D))
          \<and> expansionFile (getLocation (common D)) = mainFileName SM
          \<and> line info = spellingLine (getLocation (common D))
          \<and> column info = spellingColumn (getLocation (common D))
          \<and> (spellingFile (getLocation (common D)) = expansionFile (getLocation (common D))
               \<longrightarrow> spellingFile (getLocation (common D)) = mainFileName SM)
          \<and> addDeclaration SM D [] = Inr [info])
      \<and> (\<forall>D\<in>set (nodes TU).
            \<not> isValid (getLocation (common D))
          \<or> expansionFile (getLocation (common D)) \<noteq> mainFileName SM
          \<longrightarrow> addDeclaration SM D Decls = Inr Decls)"
proof -
  let ?Decls = "map record_of (recorded SM TU)"
  have run: "HandleTranslationUnit SM TU [] = Inr ?Decls"
    by (simp add: HandleTranslationUnit_def TraverseDecl_eq)
  have from_main: "\<exists>D\<in>set (nodes TU).
            isValid (getLocation (common D))
          \<and> expansionFile (getLocation (common D)) = mainFileName SM
          \<and> line info = spellingLine (getLocation (common D))
          \<and> column info = spellingColumn (getLocation (common D))
          \<and> (spellingFile (getLocation (common D)) = expansionFile (getLocation (common D))
               \<longrightarrow> spellingFile (getLocation (common D)) = mainFileName SM)
          \<and> addDeclaration SM D [] = Inr [info]" if "info \<in> set ?Decls" for info
  proof -
    from that obtain D where D: "D \<in> set (recorded SM TU)" and info: "info = record_of D"
      by auto
    have n: "D \<in> set (nodes TU)" and v: "hasVisitMethod D" and s: "shouldVisitDecl SM D"
      using recorded_props [OF D] by simp_all
    have loc: "isValid (getLocation (common D))"
      "expansionFile (getLocation (common D)) = mainFileName SM"
      using s by (simp_all add: shouldVisitDecl_iff)
    have add: "addDeclaration SM D [] = Inr [info]"
      using addDeclaration_record [OF v s, of "[]"] info by simp
    have pos: "line info = spellingLine (getLocation (common D))"
      "column info = spellingColumn (getLocation (common D))"
      by (simp_all add: info record_of_def)
    from n loc add pos show ?thesis
      by (intro bexI [of _ D]) simp_all
  qed
  have skipped: "addDeclaration SM D ?Decls = Inr ?Decls"
    if "\<not> isValid (getLocation (common D))
          \<or> expansionFile (getLocation (common D)) \<noteq> mainFileName SM" for D
    using that by (intro addDeclaration_skip) (auto simp: shouldVisitDecl_iff)
  show ?thesis
    using run from_main skipped by blast
qed

text \<open>
  C2, amended, at \<^verbatim>\<open>main.c\<close>: the run has one record, that of the variable of the main
  file, a node written there outside any macro; the function of the header is a node of
  the tree located elsewhere, and \<^verbatim>\<open>addDeclaration\<close> on it leaves the records as they
  are.
\<close>

theorem C2_witness:
  "HandleTranslationUnit incl_SM incl_TU [] =
     Inr [\<lparr>kind = ''Var'', declaration_str = ''int counter;'', is_definition = False,
            line = 2, column = 5\<rparr>]
   \<and> (\<exists>D\<in>set (nodes incl_TU).
         isValid (getLocation (common D))
       \<and> expansionFile (getLocation (common D)) = mainFileName incl_SM
       \<and> spellingFile (getLocation (common D)) = mainFileName incl_SM
       \<and> spellingLine (getLocation (common D)) = 2
       \<and> spellingColumn (getLocation (common D)) = 5
       \<and> addDeclaration incl_SM D [] =
           Inr [\<lparr>kind = ''Var'', declaration_str = ''int counter;'', is_definition = False,
                  line = 2, column = 5\<rparr>])
   \<and> spellingFile (getLocation (common counter_Decl)) =
       expansionFile (getLocation (common counter_Decl))
   \<and> helper_Decl \<in> set (nodes incl_TU)
   \<and> expansionFile (getLocation (common helper_Decl)) \<noteq> mainFileName incl_SM
   \<and> addDeclaration incl_SM helper_Decl
         [\<lparr>kind = ''Var'', declaration_str = ''int counter;'', is_definition = False,
            line = 2, column = 5\<rparr>] =
       Inr [\<lparr>kind = ''Var'', declaration_str = ''int counter;'', is_definition = False,
              line = 2, column = 5\<rparr>]"
proof -
  let ?r = "\<lparr>kind = ''Var'', declaration_str = ''int counter;'', is_definition = False,
             line = 2, column = 5\<rparr>"
  have run: "HandleTranslationUnit incl_SM incl_TU [] = Inr [?r]"
    by (simp add: HandleTranslationUnit_def incl_TU_def helper_Decl_def counter_Decl_def
        incl_SM_def translationUnit_def written_def located_def noLocation_def WalkUpFrom_def
        VisitFunctionDecl_def VisitVarDecl_def addDeclaration_def shouldVisitDecl_def
        isInMainFile_def getDeclarationString_def isDefinition_def)
  have node: "helper_Decl \<in> set (nodes incl_TU)"
    by (simp add: incl_TU_def translationUnit_def helper_Decl_def)
  have other: "expansionFile (getLocation (common helper_Decl)) \<noteq> mainFileName incl_SM"
    by (simp add: helper_Decl_def incl_SM_def written_def located_def)
  have same: "spellingFile (getLocation (common counter_Decl)) =
      expansionFile (getLocation (common counter_Decl))"
    by (simp add: counter_Decl_def written_def located_def)
  have only: "D = counter_Decl"
    if "D \<in> set (nodes incl_TU)" and "addDeclaration incl_SM D [] = Inr [?r]" for D
    using that
    by (auto simp: incl_TU_def translationUnit_def helper_Decl_def counter_Decl_def
        incl_SM_def written_def located_def noLocation_def addDeclaration_def
        shouldVisitDecl_def isInMainFile_def)
  from C2_records_from_expansion_in_main_file [of incl_SM incl_TU] obtain Decls where
    d: "HandleTranslationUnit incl_SM incl_TU [] = Inr Decls"
    and main_file: "\<forall>info\<in>set Decls. \<exists>D\<in>set (nodes incl_TU).
            isValid (getLocation (common D))
          \<and> expansionFile (getLocation (common D)) = mainFileName incl_SM
          \<and> line info = spellingLine (getLocation (common D))
          \<and> column info = spellingColumn (getLocation (common D))
          \<and> (spellingFile (getLocation (common D)) = expansionFile (getLocation (common D))
               \<longrightarrow> spellingFile (getLocation (common D)) = mainFileName incl_SM)
          \<and> addDeclaration incl_SM D [] = Inr [info]"
    and elsewhere: "\<forall>D\<in>set (nodes incl_TU).
            \<not> isValid (getLocation (common D))
          \<or> expansionFile (getLocation (common D)) \<noteq> mainFileName incl_SM
          \<longrightarrow> addDeclaration incl_SM D Decls = Inr Decls"
    by blast
  from d run have Decls: "Decls = [?r]" by simp
  from main_file Decls obtain D where D: "D \<in> set (nodes incl_TU)"
    and v: "isValid (getLocation (common D))"
    and e: "expansionFile (getLocation (common D)) = mainFileName incl_SM"
    and l: "line ?r = spellingLine (getLocation (common D))"
    and c: "column ?r = spellingColumn (getLocation (common D))"
    and sp: "spellingFile (getLocation (common D)) = expansionFile (getLocation (common D))
               \<longrightarrow> spellingFile (getLocation (common D)) = mainFileName incl_SM"
    and add: "addDeclaration incl_SM D [] = Inr [?r]"
    by auto
  from only [OF D add] same sp have "spellingFile (getLocation (common D)) = mainFileName incl_SM"
    by simp
  with D v e l c add have "\<exists>D\<in>set (nodes incl_TU).
         isValid (getLocation (common D))
       \<and> expansionFile (getLocation (common D)) = mainFileName incl_SM
       \<and> spellingFile (getLocation (common D)) = mainFileName incl_SM
       \<and> spellingLine (getLocation (common D)) = 2
       \<and> spellingColumn (getLocation (common D)) = 5
       \<and> addDeclaration incl_SM D [] = Inr [?r]"
    by (intro bexI [of _ D]) simp_all
  moreover from elsewhere node other Decls
  have "addDeclaration incl_SM helper_Decl [?r] = Inr [?r]"
    by blast
  ultimately show ?thesis
    using run node other same by simp
qed

subsection \<open>C3: the definitions-only filter\<close>

text \<open>
  C3. Without the flag the report has the line of every record; with it, the lines of
  exactly the records whose \<open>is_definition\<close> is true, in the same order. The total line
  counts all records in both.
\<close>

theorem C3_definitions_only_filter:
  "print_results (OP\<lparr>DefinitionsOnly := False\<rparr>) Decls =
     report_header OP @ concat (map decl_line Decls)
       @ newline @ ''=== Total: '' @ decimal (length Decls) @ '' items ==='' @ newline
   \<and> print_results (OP\<lparr>DefinitionsOnly := True\<rparr>) Decls =
     report_header OP @ concat (map decl_line (filter is_definition Decls))
       @ newline @ ''=== Total: '' @ decimal (length Decls) @ '' items ==='' @ newline"
  by (simp add: print_results_eq report_header_def)

subsection \<open>C4: definition or declaration\<close>

text \<open>
  C4. \<^verbatim>\<open>isDefinition\<close> is true exactly for a function, record or enum node whose own
  occurrence is flagged as the defining one by the front-end. So a function \<open>f\<close> declared
  and later defined in the main file has two records, in this order: the first a
  declaration, the second a definition, each followed by the records of the nodes below
  it (its parameters, the declarations in its body).
\<close>

theorem C4_isDefinition:
  "(isDefinition D \<longleftrightarrow>
      (is_FunctionDecl (shape D) \<or> is_RecordDecl (shape D) \<or> shape D = EnumDecl)
      \<and> isThisDeclarationADefinition (common D))
   \<and> (\<exists>R1 R2.
        TraverseDecls SM cs1 [] = Inr R1 \<and> TraverseDecls SM cs2 [] = Inr R2
      \<and> HandleTranslationUnit SM
          (translationUnit
            [Decl (written ''Function'' f (located (mainFileName SM) l1 k1) False)
               (FunctionDecl RT ps) cs1,
             Decl (written ''Function'' f (located (mainFileName SM) l2 k2) True)
               (FunctionDecl RT ps) cs2]) []
        = Inr ([\<lparr>kind = ''Function'', declaration_str = getFunctionSignature RT f ps @ '';'',
                  is_definition = False, line = l1, column = k1\<rparr>] @ R1
               @ [\<lparr>kind = ''Function'', declaration_str = getFunctionSignature RT f ps @ '';'',
                  is_definition = True, line = l2, column = k2\<rparr>] @ R2))"
proof -
  have "isDefinition D \<longleftrightarrow>
      (is_FunctionDecl (shape D) \<or> is_RecordDecl (shape D) \<or> shape D = EnumDecl)
      \<and> isThisDeclarationADefinition (common D)"
    by (cases "shape D") (simp_all add: isDefinition_def)
  moreover have "TraverseDecls SM cs Decls =
      Inr (Decls @ concat (map (\<lambda>D. map record_of (recorded SM D)) cs))" for cs Decls
    by (rule TraverseDecls_eq)
  ultimately show ?thesis
    by (simp add: HandleTranslationUnit_def translationUnit_def written_def located_def
        noLocation_def WalkUpFrom_def VisitFunctionDecl_def addDeclaration_def
        shouldVisitDecl_def isInMainFile_def getDeclarationString_def isDefinition_def)
qed

subsection \<open>C5: nodes of other kinds\<close>

text \<open>
  C5 as stated, a record with the generic signature for a named node of any other kind,
  does not hold. The namespace of \<^verbatim>\<open>ns.cc\<close> is located in the main file, and
  \<^verbatim>\<open>getDeclarationString\<close> would render it as \<^verbatim>\<open>Namespace: ns\<close>, but the run has a
  record for the variable inside it only.
\<close>

theorem C5_counterexample:
  "shouldVisitDecl ns_SM ns_Decl
   \<and> getDeclarationString ns_Decl = Inr ''Namespace: ns''
   \<and> HandleTranslationUnit ns_SM ns_TU [] =
       Inr [\<lparr>kind = ''Var'', declaration_str = ''int x;'', is_definition = False,
              line = 1, column = 20\<rparr>]"
  by (simp add: HandleTranslationUnit_def ns_TU_def ns_Decl_def ns_SM_def translationUnit_def
      written_def located_def noLocation_def WalkUpFrom_def VisitVarDecl_def
      addDeclaration_def shouldVisitDecl_def isInMainFile_def getDeclarationString_def
      isDefinition_def)

text \<open>
  C5, amended. \<^verbatim>\<open>getDeclarationString\<close> gives a named node of another kind the text
  "kind: name", but no \<^verbatim>\<open>Visit\<close> method is called on a node outside the seven classes,
  named or not: the walk adds no record for it, does not fail, and goes on to its
  children.
\<close>

theorem C5_other_kinds_passed_over:
  "getDeclarationString (Decl c OtherNamedDecl cs) =
     Inr (getDeclKindName c @ '': '' @ getNameAsString c)
   \<and> WalkUpFrom SM (Decl c OtherNamedDecl cs) Decls = Inr Decls
   \<and> TraverseDecl SM (Decl c OtherNamedDecl cs) Decls =
       (if isImplicit c then Inr Decls else TraverseDecls SM cs Decls)
   \<and> WalkUpFrom SM (Decl c OtherDecl cs) Decls = Inr Decls
   \<and> TraverseDecl SM (Decl c OtherDecl cs) Decls =
       (if isImplicit c then Inr Decls else TraverseDecls SM cs Decls)"
  by (simp add: getDeclarationString_def WalkUpFrom_def)

subsection \<open>C6: the \<^verbatim>\<open>connection\<close> scenario\<close>

text \<open>
  C6 as stated, six records and a total of 6, does not hold: the second field of the
  struct has a record as well.
\<close>

theorem C6_counterexample:
  "map_sum id (map declaration_str) (HandleTranslationUnit conn_SM conn_TU []) \<noteq>
     Inr [''struct connection;'', ''typedef struct connection CONNECTION;'',
          ''struct connection;'', ''int fd;'', ''int f(void);'', ''int f(void);'']
   \<and> map_sum id length (HandleTranslationUnit conn_SM conn_TU []) = Inr 7"
  by (simp add: HandleTranslationUnit_def conn_TU_def conn_SM_def translationUnit_def
      written_def located_def noLocation_def WalkUpFrom_def VisitFunctionDecl_def
      VisitTypedefDecl_def VisitRecordDecl_def VisitFieldDecl_def
      addDeclaration_def shouldVisitDecl_def isInMainFile_def getDeclarationString_def
      getFunctionSignature_def isDefinition_def)

text \<open>
  C6, amended. The records of \<^verbatim>\<open>conn.c\<close>, in order, are the forward declaration of the
  struct, the typedef, the definition of the struct, its fields \<open>fd\<close> and \<open>next\<close>, the
  declaration of \<open>f\<close> and the definition of \<open>f\<close>: seven records, and the report ends
  with a total of 7.
\<close>

theorem C6_connection_scenario:
  "HandleTranslationUnit conn_SM conn_TU [] =
     Inr [\<lparr>kind = ''Record'', declaration_str = ''struct connection;'',
            is_definition = False, line = 1, column = 8\<rparr>,
          \<lparr>kind = ''Typedef'', declaration_str = ''typedef struct connection CONNECTION;'',
            is_definition = False, line = 2, column = 27\<rparr>,
          \<lparr>kind = ''Record'', declaration_str = ''struct connection;'',
            is_definition = True, line = 3, column = 8\<rparr>,
          \<lparr>kind = ''Field'', declaration_str = ''int fd;'',
            is_definition = False, line = 3, column = 25\<rparr>,
          \<lparr>kind = ''Field'', declaration_str = ''CONNECTION * next;'',
            is_definition = False, line = 3, column = 41\<rparr>,
          \<lparr>kind = ''Function'', declaration_str = ''int f(void);'',
            is_definition = False, line = 4, column = 5\<rparr>,
          \<lparr>kind = ''Function'', declaration_str = ''int f(void);'',
            is_definition = True, line = 5, column = 5\<rparr>]
   \<and> main (Value conn_options) conn_run =
     Inr \<lparr>stdout = unlines
            [''=== Declarations from conn.c ==='',
             '''',
             ''struct connection;  // declaration at 1:8'',
             ''typedef struct connection CONNECTION;  // declaration at 2:27'',
             ''struct connection;  // definition at 3:8'',
             ''int fd;  // declaration at 3:25'',
             ''CONNECTION * next;  // declaration at 3:41'',
             ''int f(void);  // declaration at 4:5'',
             ''int f(void);  // definition at 5:5'',
             '''',
             ''=== Total: 7 items ===''],
          stderr = [], exit_status = 0\<rparr>"
proof -
  have run: "HandleTranslationUnit conn_SM conn_TU [] =
     Inr [\<lparr>kind = ''Record'', declaration_str = ''struct connection;'',
            is_definition = False, line = 1, column = 8\<rparr>,
          \<lparr>kind = ''Typedef'', declaration_str = ''typedef struct connection CONNECTION;'',
            is_definition = False, line = 2, column = 27\<rparr>,
          \<lparr>kind = ''Record'', declaration_str = ''struct connection;'',
            is_definition = True, line = 3, column = 8\<rparr>,
          \<lparr>kind = ''Field'', declaration_str = ''int fd;'',
            is_definition = False, line = 3, column = 25\<rparr>,
          \<lparr>kind = ''Field'', declaration_str = ''CONNECTION * next;'',
            is_definition = False, line = 3, column = 41\<rparr>,
          \<lparr>kind = ''Function'', declaration_str = ''int f(void);'',
            is_definition = False, line = 4, column = 5\<rparr>,
          \<lparr>kind = ''Function'', declaration_str = ''int f(void);'',
            is_definition = True, line = 5, column = 5\<rparr>]"
    by (simp add: HandleTranslationUnit_def conn_TU_def conn_SM_def translationUnit_def
      written_def located_def noLocation_def WalkUpFrom_def VisitFunctionDecl_def
      VisitTypedefDecl_def VisitRecordDecl_def VisitFieldDecl_def
      addDeclaration_def shouldVisitDecl_def isInMainFile_def getDeclarationString_def
      getFunctionSignature_def isDefinition_def)
  have d: "decimal (Suc 0) = ''1''" "decimal 2 = ''2''" "decimal 3 = ''3''" "decimal 4 = ''4''"
    "decimal 5 = ''5''" "decimal (Suc (Suc (Suc (Suc (Suc (Suc (Suc 0))))))) = ''7''" "decimal 8 = ''8''" "decimal 25 = ''25''"
    "decimal 27 = ''27''" "decimal 41 = ''41''"
    by (simp_all add: decimal.simps)
  show ?thesis
    by (simp add: run main_def conn_run_def conn_options_def print_results_def Let_def
        unlines_def d)
qed

subsection \<open>C7: the exit status\<close>

text \<open>
  C7 as stated, exit status 0 whenever the front-end built a tree, does not hold. For
  \<^verbatim>\<open>bad.c\<close> the front-end recovers from the error and hands over a tree, the report is
  printed in full, and the exit status is the 1 that \<^verbatim>\<open>Tool.run\<close> returned.
\<close>

theorem C7_counterexample:
  "main (Value bad_options) bad_run =
     Inr \<lparr>stdout = unlines
            [''=== Declarations from bad.c ==='',
             '''',
             ''int g(void);  // definition at 1:5'',
             '''',
             ''=== Total: 1 items ===''],
          stderr = ''bad.c:1:22: error: use of undeclared identifier y'',
          exit_status = 1\<rparr>"
proof -
  have run: "HandleTranslationUnit bad_SM bad_TU [] =
     Inr [\<lparr>kind = ''Function'', declaration_str = ''int g(void);'',
            is_definition = True, line = 1, column = 5\<rparr>]"
    by (simp add: HandleTranslationUnit_def bad_TU_def bad_SM_def translationUnit_def
      written_def located_def noLocation_def WalkUpFrom_def VisitFunctionDecl_def
      addDeclaration_def shouldVisitDecl_def isInMainFile_def getDeclarationString_def
      getFunctionSignature_def isDefinition_def)
  have d: "decimal (Suc 0) = ''1''" "decimal 5 = ''5''"
    by (simp_all add: decimal.simps)
  show ?thesis
    by (simp add: run main_def bad_run_def bad_options_def print_results_def Let_def
        unlines_def d)
qed

text \<open>
  C7, amended. The exit status is 1 when the command line cannot be parsed; otherwise
  the run always completes with the report of the collected records, and its exit status
  is what \<^verbatim>\<open>Tool.run\<close> returned, whether or not a tree was built and traversed.
\<close>

theorem C7_exit_status:
  "main (Error msg) Tool = Inr \<lparr>stdout = [], stderr = msg, exit_status = 1\<rparr>
   \<and> (\<exists>Decls. run_units (translationUnits Tool) [] = Inr Decls
        \<and> main (Value OP) Tool =
            Inr \<lparr>stdout = print_results OP Decls, stderr = diagnostics Tool,
                 exit_status = returnCode Tool\<rparr>)"
proof -
  obtain Decls where "run_units (translationUnits Tool) [] = Inr Decls"
    using run_units_total by blast
  then show ?thesis by (simp add: main_def)
qed

subsection \<open>C8: the report after a fatal failure\<close>

text \<open>
  C8 as stated, nothing on standard output when no tree can be built, does not hold: for
  a file that does not exist the header and the total line are printed.
\<close>

theorem C8_counterexample:
  "main (Value missing_options) missing_run =
     Inr \<lparr>stdout = unlines
            [''=== Declarations from missing.c ==='',
             '''',
             '''',
             ''=== Total: 0 items ===''],
          stderr = ''error: no such file or directory: missing.c'',
          exit_status = 1\<rparr>"
  by (simp add: main_def missing_run_def missing_options_def print_results_def Let_def
        unlines_def decimal.simps)

text \<open>
  C8, amended. When the command line cannot be parsed, only the error message is written,
  to the error stream, and the exit status is 1. When the front-end builds no tree,
  standard output still has the header and the total line, with a total of 0 and no
  record line, and the exit status is what \<^verbatim>\<open>Tool.run\<close> returned.
\<close>

theorem C8_report_on_failure:
  "main (Error msg) Tool = Inr \<lparr>stdout = [], stderr = msg, exit_status = 1\<rparr>
   \<and> main (Value OP) (Tool\<lparr>translationUnits := []\<rparr>) =
       Inr \<lparr>stdout = report_header OP @ newline @ ''=== Total: 0 items ==='' @ newline,
            stderr = diagnostics Tool,
            exit_status = returnCode Tool\<rparr>"
  by (simp add: main_def print_results_eq decimal.simps)

subsection \<open>C9: the macro flag\<close>

text \<open>
  C9. With the macro flag set and with it unset, \<^verbatim>\<open>main\<close> gives the same result on the
  same run of the front-end, whatever the other arguments: the same standard output,
  error output and exit status.
\<close>

theorem C9_macro_flag_unused:
  "main (Value (OP\<lparr>ShowMacros := True\<rparr>)) Tool = main (Value (OP\<lparr>ShowMacros := False\<rparr>)) Tool
   \<and> print_results (OP\<lparr>ShowMacros := True\<rparr>) Decls = print_results (OP\<lparr>ShowMacros := False\<rparr>) Decls"
proof -
  have p: "print_results (OP\<lparr>ShowMacros := b\<rparr>) Ds = print_results OP Ds" for b Ds
    by (simp add: print_results_def)
  have "main (Value (OP\<lparr>ShowMacros := b\<rparr>)) Tool = main (Value OP) Tool" for b
    by (simp add: main_def p split: sum.splits)
  then show ?thesis by (simp add: p)
qed

subsection \<open>C10: a field without a name\<close>

text \<open>
  C10. A field node with an empty name is rendered as its type, a space and a semicolon,
  and that is the text of its record; a record or enum node with an empty name is
  rendered with \<^verbatim>\<open><anonymous>\<close> instead.
\<close>

theorem C10_unnamed_field:
  assumes "shape D = FieldDecl ty"
    and "getNameAsString (common D) = []"
    and "shouldVisitDecl SM D"
  shows "getDeclarationString D = Inr (ty @ '' ;'')
    \<and> VisitFieldDecl SM D Decls =
        Inr (Decls @ [\<lparr>kind = getDeclKindName (common D), declaration_str = ty @ '' ;'',
                        is_definition = False,
                        line = spellingLine (getLocation (common D)),
                        column = spellingColumn (getLocation (common D))\<rparr>])
    \<and> getDeclarationString (Decl (common D) (RecordDecl TTK_Struct) []) = Inr ''struct <anonymous>;''
    \<and> getDeclarationString (Decl (common D) EnumDecl []) = Inr ''enum <anonymous>;''"
  using assms
  by (simp add: getDeclarationString_def VisitFieldDecl_def addDeclaration_def isDefinition_def)

text \<open>C10 at the unnamed bit-field of \<^verbatim>\<open>bits.c\<close>.\<close>

theorem C10_witness:
  "shape bits_Field = FieldDecl ''int''
   \<and> getNameAsString (common bits_Field) = []
   \<and> shouldVisitDecl bits_SM bits_Field
   \<and> getDeclarationString bits_Field = Inr ''int ;''
   \<and> VisitFieldDecl bits_SM bits_Field [] =
       Inr [\<lparr>kind = ''Field'', declaration_str = ''int ;'', is_definition = False,
              line = 1, column = 20\<rparr>]"
proof -
  have h1: "shape bits_Field = FieldDecl ''int''"
    by (simp add: bits_Field_def)
  have h2: "getNameAsString (common bits_Field) = []"
    by (simp add: bits_Field_def written_def)
  have h3: "shouldVisitDecl bits_SM bits_Field"
    by (simp add: bits_Field_def bits_SM_def written_def located_def shouldVisitDecl_def
        isInMainFile_def)
  have c: "getDeclKindName (common bits_Field) = ''Field''"
    "spellingLine (getLocation (common bits_Field)) = 1"
    "spellingColumn (getLocation (common bits_Field)) = 20"
    by (simp_all add: bits_Field_def written_def located_def)
  from C10_unnamed_field [OF h1 h2 h3, of "[]"] h1 h2 h3 c show ?thesis
    by simp
qed

end
